theory Spec2Isabelle
  imports Complex_Main "HOL-Library.List_Lexorder" "HOL-Library.Char_ord"
begin

section \<open>JavaScript values and the JSON-file store\<close>

text \<open>
  The routers read entity lists from JSON files and look at their fields with
  JavaScript's truthiness, \<open>||\<close> and \<open>===\<close>. A field of a stored object is any JSON
  value or is missing (\<open>undefined\<close>); arrays and objects are kept as one opaque
  value, which is truthy and never \<open>===\<close> to a string.
\<close>

datatype jsval = JUndefined | JNull | JBool bool | JNum real | JStr string | JObject

fun truthy :: "jsval \<Rightarrow> bool" where
  "truthy JUndefined = False"
| "truthy JNull = False"
| "truthy (JBool b) = b"
| "truthy (JNum n) = (n \<noteq> 0)"
| "truthy (JStr s) = (s \<noteq> [])"
| "truthy JObject = True"

text \<open>\<open>a || b\<close>: the first operand when it is truthy, the second otherwise.\<close>

definition js_or :: "jsval \<Rightarrow> jsval \<Rightarrow> jsval" where
  "js_or a b = (if truthy a then a else b)"

text \<open>
  An entity file either cannot be read or parsed, or holds an array. The read
  helpers (\<open>readJSONFile\<close>, \<open>readMenuData\<close>, \<open>readOffersData\<close>, \<open>readPromoData\<close>) catch
  the failure, log it and return the empty array.

  The write helpers open the file for writing, which empties it, write the new
  text and return whether that succeeded. The file system either accepts the
  write, or the write fails and leaves behind some file: the old one when the
  failure comes before the file is opened, and otherwise what had been written
  until then, an empty file or a proper prefix of the new text, neither of which
  parses. No operation decides on what a failed write leaves behind, so it is a
  parameter of the failure.
\<close>

datatype 'a json_file = Unreadable | Stored "'a list"

definition readJSONFile :: "'a json_file \<Rightarrow> 'a list" where
  "readJSONFile f = (case f of Unreadable \<Rightarrow> [] | Stored xs \<Rightarrow> xs)"

datatype 'a disk = Accepts | Fails "'a json_file"

definition writeJSONFile :: "'a disk \<Rightarrow> 'a json_file \<Rightarrow> 'a list \<Rightarrow> bool \<times> 'a json_file" where
  "writeJSONFile dsk f xs =
     (case dsk of Accepts \<Rightarrow> (True, Stored xs) | Fails left \<Rightarrow> (False, left))"

text \<open>A reply is a status code with a JSON body, or a status code with an error message.\<close>

datatype 'a reply = Success nat 'a | Failure nat string

section \<open>Numbers\<close>

text \<open>
  Identifiers are JavaScript numbers with integer values, that is, doubles. The
  sum of two of them is the exact sum rounded to 53 significant bits, to the
  nearest value and to the even one of two nearest values, as long as it stays
  in the range of the doubles, which the sum of a double and 1 does: below
  \<open>2^53\<close> in magnitude the sum is exact, and \<open>2^53 + 1\<close> is \<open>2^53\<close>.
\<close>

function bit_length :: "int \<Rightarrow> nat" where
  "bit_length n = (if n \<le> 0 then 0 else Suc (bit_length (n div 2)))"
  by pat_completeness auto
termination
  by (relation "measure nat") auto

declare bit_length.simps [simp del]

definition round_double :: "int \<Rightarrow> int" where
  "round_double n =
     (let m = \<bar>n\<bar>;
          e = bit_length m - 53;
          q = m div 2 ^ e;
          r = m mod 2 ^ e;
          q' = (if 2 * r > 2 ^ e \<or> (2 * r = 2 ^ e \<and> odd q) then q + 1 else q)
      in sgn n * (q' * 2 ^ e))"

text \<open>\<open>a + b\<close> on two such numbers.\<close>

definition js_add :: "int \<Rightarrow> int \<Rightarrow> int" where
  "js_add a b = round_double (a + b)"

section \<open>Bookings (backend/routes/bookings.js)\<close>

text \<open>
  The fields of a stored booking that the availability scan and the creation check
  read, in both spellings the code looks for, with the numeric identifier
  (\<open>None\<close> when missing), the identifier of the user and the selected items. The
  remaining properties of a booking (customer, venue, amounts, timestamps) are
  carried by no decision of the routers and are left out.
\<close>

record booking =
  b_id :: "int option"
  eventDate :: jsval
  event_date :: jsval
  timeSlot :: jsval
  time_slot :: jsval
  userId :: "int option"
  selectedItems :: "jsval list"

text \<open>\<open>booking.eventDate || booking.event_date\<close> and \<open>booking.timeSlot || booking.time_slot\<close>.\<close>

definition bookingDate :: "booking \<Rightarrow> jsval" where
  "bookingDate b = js_or (eventDate b) (event_date b)"

definition bookingSlot :: "booking \<Rightarrow> jsval" where
  "bookingSlot b = js_or (timeSlot b) (time_slot b)"

text \<open>The filter of the availability route: \<open>bookingDate === date\<close>, \<open>date\<close> a string.\<close>

definition dateBookings :: "booking list \<Rightarrow> string \<Rightarrow> booking list" where
  "dateBookings bookings date = filter (\<lambda>b. bookingDate b = JStr date) bookings"

definition getAvailableSlots :: "booking list \<Rightarrow> string list" where
  "getAvailableSlots dbs =
     (let allSlots = [''morning'', ''afternoon''];
          bookedSlots = filter truthy (map bookingSlot dbs)
      in filter (\<lambda>slot. JStr slot \<notin> set bookedSlots) allSlots)"

record availability =
  av_date :: string
  av_bookings :: "booking list"
  availableSlots :: "string list"

definition get_availability :: "booking json_file \<Rightarrow> string \<Rightarrow> availability reply" where
  "get_availability fl date =
     (let bookings = readJSONFile fl;
          dbs = dateBookings bookings date
      in Success 200 \<lparr>av_date = date, av_bookings = dbs,
                      availableSlots = getAvailableSlots dbs\<rparr>)"

text \<open>
  The body of a creation request: \<open>None\<close> is a missing property. Only the
  properties the router decides on are modelled.
\<close>

record booking_request =
  req_eventDate :: "string option"
  req_timeSlot :: "string option"
  req_selectedItems :: "jsval list option"

text \<open>\<open>Math.max(0, ...bookings.map(b => b.id || 0)) + 1\<close>\<close>

definition nextBookingId :: "booking list \<Rightarrow> int" where
  "nextBookingId bookings =
     js_add (fold max (map (\<lambda>b. case b_id b of None \<Rightarrow> 0 | Some i \<Rightarrow> i) bookings) 0) 1"

definition conflictingBooking :: "booking list \<Rightarrow> string \<Rightarrow> string \<Rightarrow> booking option" where
  "conflictingBooking bookings d s =
     find (\<lambda>b. eventDate b = JStr d \<and> (timeSlot b = JStr s \<or> time_slot b = JStr s)) bookings"

definition conflict_message :: "string \<Rightarrow> string \<Rightarrow> string" where
  "conflict_message s d = ''The '' @ s @ '' time slot is already booked for '' @ d"

text \<open>
  The loop that sums \<open>(item.price || 0) * (item.quantity || 0)\<close> reads a property of
  every selected item: on an item that is \<open>null\<close> (or \<open>undefined\<close>) the read throws, and
  the handler's \<open>catch\<close> replies 500 before anything is written. The sum itself is
  not carried.
\<close>

definition throws_on_read :: "jsval \<Rightarrow> bool" where
  "throws_on_read item = (item = JNull \<or> item = JUndefined)"

definition create_checked ::
  "booking disk \<Rightarrow> booking json_file \<Rightarrow> string \<Rightarrow> string \<Rightarrow> jsval list \<Rightarrow> booking reply \<times> booking json_file" where
  "create_checked dsk fl d s items =
     (let bookings = readJSONFile fl in
      case conflictingBooking bookings d s of
        Some c \<Rightarrow> (Failure 400 (conflict_message s d), fl)
      | None \<Rightarrow>
          if list_ex throws_on_read items then (Failure 500 ''Internal server error'', fl)
          else
            (let newBooking = \<lparr>b_id = Some (nextBookingId bookings), eventDate = JStr d,
                               event_date = JUndefined, timeSlot = JStr s,
                               time_slot = JUndefined, userId = Some 1,
                               selectedItems = items\<rparr>;
                 (ok, fl') = writeJSONFile dsk fl (bookings @ [newBooking])
             in if \<not> ok then (Failure 500 ''Failed to save booking'', fl')
                else (Success 201 newBooking, fl')))"

text \<open>
  \<open>router.post('/')\<close>: the required-field check
  \<open>!eventDate || !timeSlot || !selectedItems || !selectedItems.length\<close> comes first.
  The handler also reads the users file and does not use what it reads.
\<close>

definition create_booking ::
  "booking disk \<Rightarrow> booking json_file \<Rightarrow> booking_request \<Rightarrow> booking reply \<times> booking json_file" where
  "create_booking dsk fl req =
     (case (req_eventDate req, req_timeSlot req, req_selectedItems req) of
        (Some d, Some s, Some items) \<Rightarrow>
          if d = [] \<or> s = [] \<or> items = [] then (Failure 400 ''Missing required fields'', fl)
          else create_checked dsk fl d s items
      | _ \<Rightarrow> (Failure 400 ''Missing required fields'', fl))"

text \<open>A request carries its required fields when the first check lets it through.\<close>

definition has_required_fields :: "booking_request \<Rightarrow> bool" where
  "has_required_fields req =
     (case (req_eventDate req, req_timeSlot req, req_selectedItems req) of
        (Some d, Some s, Some items) \<Rightarrow> d \<noteq> [] \<and> s \<noteq> [] \<and> items \<noteq> []
      | _ \<Rightarrow> False)"

text \<open>
  \<open>router.get('/')\<close> reads the bookings and the users and adds to every booking the
  contact fields of the user it names; a user's fields are strings.
\<close>

record user =
  u_id :: "int option"
  firstName :: string
  lastName :: string
  email :: string
  phoneNumber :: string

record contact =
  customerName :: string
  customerPhone :: string
  first_name :: string
  last_name :: string
  contact_email :: string
  phone_number :: string

text \<open>\<open>s || d\<close> on a string.\<close>

definition or_default :: "string \<Rightarrow> string \<Rightarrow> string" where
  "or_default s d = (if s = [] then d else s)"

definition contact_of :: "user option \<Rightarrow> contact" where
  "contact_of found =
     (case found of
        None \<Rightarrow>
          \<lparr>customerName = ''Unknown Customer'', customerPhone = ''No phone'',
           first_name = ''Unknown'', last_name = ''Customer'', contact_email = ''No email'',
           phone_number = ''No phone''\<rparr>
      | Some u \<Rightarrow>
          \<lparr>customerName = firstName u @ '' '' @ lastName u, customerPhone = phoneNumber u,
           first_name = or_default (firstName u) ''Unknown'',
           last_name = or_default (lastName u) ''Customer'',
           contact_email = or_default (email u) ''No email'',
           phone_number = or_default (phoneNumber u) ''No phone''\<rparr>)"

definition get_bookings ::
  "booking json_file \<Rightarrow> user json_file \<Rightarrow> (booking \<times> contact) list reply" where
  "get_bookings bookingsFile usersFile =
     (let bookings = readJSONFile bookingsFile;
          users = readJSONFile usersFile
      in Success 200
           (map (\<lambda>b. (b, contact_of (find (\<lambda>u. u_id u = userId b) users))) bookings))"

section \<open>Strings\<close>

text \<open>
  Strings are ASCII text, one \<open>char\<close> per character. \<open>toUpperCase\<close> maps the
  letters a to z to A to Z, \<open>toLowerCase\<close> maps A to Z to a to z, and both leave
  every other character alone; \<open>trim\<close> removes
  white space (space, tab, line feed, vertical tab, form feed, carriage return) at
  both ends.
\<close>

definition upper_char :: "char \<Rightarrow> char" where
  "upper_char c =
     (let n = (of_char c :: nat) in if 97 \<le> n \<and> n \<le> 122 then char_of (n - 32) else c)"

definition toUpperCase :: "string \<Rightarrow> string" where
  "toUpperCase s = map upper_char s"

definition lower_char :: "char \<Rightarrow> char" where
  "lower_char c =
     (let n = (of_char c :: nat) in if 65 \<le> n \<and> n \<le> 90 then char_of (n + 32) else c)"

definition toLowerCase :: "string \<Rightarrow> string" where
  "toLowerCase s = map lower_char s"

definition is_space :: "char \<Rightarrow> bool" where
  "is_space c = ((of_char c :: nat) \<in> {32, 9, 10, 11, 12, 13})"

definition trim :: "string \<Rightarrow> string" where
  "trim s = rev (dropWhile is_space (rev (dropWhile is_space s)))"

text \<open>
  \<open>Array.prototype.findIndex\<close>, with \<open>None\<close> for the result \<open>-1\<close>. An index it returns
  lies inside the list, so the handlers below read \<open>xs ! i\<close> only in range.
\<close>

fun findIndex :: "('a \<Rightarrow> bool) \<Rightarrow> 'a list \<Rightarrow> nat option" where
  "findIndex P [] = None"
| "findIndex P (x # xs) = (if P x then Some 0 else map_option Suc (findIndex P xs))"

text \<open>\<open>xs.splice(i, 1)\<close>: the list without its element at index \<open>i\<close>.\<close>

definition splice1 :: "nat \<Rightarrow> 'a list \<Rightarrow> 'a list" where
  "splice1 i xs = take i xs @ drop (Suc i) xs"

section \<open>Menu items (backend/routes/menu.js)\<close>

text \<open>
  \<open>Math.max\<close> of no arguments is \<open>-Infinity\<close>, and \<open>-Infinity + 1\<close> is \<open>-Infinity\<close>;
  \<open>JSON.stringify\<close> writes it as \<open>null\<close>.
\<close>

datatype jsnum = NegInfinity | Fin int

definition Math_max :: "int list \<Rightarrow> jsnum" where
  "Math_max xs = (case xs of [] \<Rightarrow> NegInfinity | x # ys \<Rightarrow> Fin (fold max ys x))"

definition js_plus :: "jsnum \<Rightarrow> int \<Rightarrow> jsnum" where
  "js_plus x k = (case x of NegInfinity \<Rightarrow> NegInfinity | Fin n \<Rightarrow> Fin (js_add n k))"

definition json_num :: "jsnum \<Rightarrow> int option" where
  "json_num x = (case x of NegInfinity \<Rightarrow> None | Fin n \<Rightarrow> Some n)"

record menu_item =
  item_id :: "int option"
  itemName :: string
  description :: string
  category :: string
  pricePerServing :: real
  imageUrl :: string
  isAvailable :: bool

text \<open>\<open>item.id || 0\<close>\<close>

definition id_or_0 :: "menu_item \<Rightarrow> int" where
  "id_or_0 item = (case item_id item of None \<Rightarrow> 0 | Some i \<Rightarrow> i)"

text \<open>\<open>Math.max(...menuItems.map(item => item.id || 0)) + 1\<close>\<close>

definition newMenuId :: "menu_item list \<Rightarrow> jsnum" where
  "newMenuId menuItems = js_plus (Math_max (map id_or_0 menuItems)) 1"

text \<open>The body of a creation request; \<open>None\<close> is a missing property.\<close>

record menu_request =
  mreq_itemName :: "string option"
  mreq_description :: "string option"
  mreq_category :: "string option"
  mreq_pricePerServing :: "real option"
  mreq_imageUrl :: "string option"
  mreq_isAvailable :: "bool option"

text \<open>\<open>x || ''\<close> on an optional string.\<close>

definition or_empty :: "string option \<Rightarrow> string" where
  "or_empty x = (case x of None \<Rightarrow> [] | Some s \<Rightarrow> s)"

definition newItem :: "menu_item list \<Rightarrow> string \<Rightarrow> string \<Rightarrow> real \<Rightarrow> menu_request \<Rightarrow> menu_item" where
  "newItem menuItems name cat price req =
     \<lparr>item_id = json_num (newMenuId menuItems),
      itemName = trim name,
      description = or_empty (mreq_description req),
      category = trim cat,
      pricePerServing = price,
      imageUrl = or_empty (mreq_imageUrl req),
      isAvailable = (case mreq_isAvailable req of None \<Rightarrow> True | Some b \<Rightarrow> b)\<rparr>"

definition create_menu_item ::
  "menu_item disk \<Rightarrow> menu_item json_file \<Rightarrow> menu_request \<Rightarrow> menu_item reply \<times> menu_item json_file" where
  "create_menu_item dsk fl req =
     (case (mreq_itemName req, mreq_category req, mreq_pricePerServing req) of
        (Some name, Some cat, Some price) \<Rightarrow>
          if name = [] \<or> cat = [] then
            (Failure 400 ''Missing required fields: itemName, category, pricePerServing'', fl)
          else if price < 0 then (Failure 400 ''Price per serving must be non-negative'', fl)
          else
            (let menuItems = readJSONFile fl;
                 item = newItem menuItems name cat price req;
                 (ok, fl') = writeJSONFile dsk fl (menuItems @ [item])
             in if \<not> ok then (Failure 500 ''Failed to save menu item'', fl')
                else (Success 201 item, fl'))
      | _ \<Rightarrow> (Failure 400 ''Missing required fields: itemName, category, pricePerServing'', fl))"

text \<open>The body of an update request: the fields to change.\<close>

record menu_updates =
  mupd_itemName :: "string option"
  mupd_description :: "string option"
  mupd_category :: "string option"
  mupd_pricePerServing :: "real option"
  mupd_imageUrl :: "string option"
  mupd_isAvailable :: "bool option"

definition apply_menu_updates :: "menu_updates \<Rightarrow> menu_item \<Rightarrow> menu_item" where
  "apply_menu_updates u currentItem =
     \<lparr>item_id = item_id currentItem,
      itemName = (case mupd_itemName u of None \<Rightarrow> itemName currentItem | Some n \<Rightarrow> trim n),
      description = (case mupd_description u of None \<Rightarrow> description currentItem | Some d \<Rightarrow> d),
      category = (case mupd_category u of None \<Rightarrow> category currentItem | Some c \<Rightarrow> trim c),
      pricePerServing =
        (case mupd_pricePerServing u of None \<Rightarrow> pricePerServing currentItem | Some p \<Rightarrow> p),
      imageUrl = (case mupd_imageUrl u of None \<Rightarrow> imageUrl currentItem | Some i \<Rightarrow> i),
      isAvailable = (case mupd_isAvailable u of None \<Rightarrow> isAvailable currentItem | Some b \<Rightarrow> b)\<rparr>"

text \<open>
  \<open>item.id === itemId\<close>, where \<open>itemId = parseInt(req.params.id)\<close> is \<open>None\<close> when
  the path segment is no number (\<open>NaN\<close> equals nothing).
\<close>

definition has_item_id :: "int option \<Rightarrow> menu_item \<Rightarrow> bool" where
  "has_item_id itemId item = (case itemId of None \<Rightarrow> False | Some n \<Rightarrow> item_id item = Some n)"

definition negative_price :: "menu_updates \<Rightarrow> bool" where
  "negative_price u = (case mupd_pricePerServing u of None \<Rightarrow> False | Some p \<Rightarrow> p < 0)"

definition update_menu_item ::
  "menu_item disk \<Rightarrow> menu_item json_file \<Rightarrow> int option \<Rightarrow> menu_updates
     \<Rightarrow> menu_item reply \<times> menu_item json_file" where
  "update_menu_item dsk fl itemId u =
     (if negative_price u then (Failure 400 ''Price per serving must be non-negative'', fl)
      else
        (let menuItems = readJSONFile fl in
         case findIndex (has_item_id itemId) menuItems of
           None \<Rightarrow> (Failure 404 ''Menu item not found'', fl)
         | Some itemIndex \<Rightarrow>
             (let updatedItem = apply_menu_updates u (menuItems ! itemIndex);
                  (ok, fl') = writeJSONFile dsk fl (menuItems[itemIndex := updatedItem])
              in if \<not> ok then (Failure 500 ''Failed to save menu item'', fl')
                 else (Success 200 updatedItem, fl'))))"

definition delete_menu_item ::
  "menu_item disk \<Rightarrow> menu_item json_file \<Rightarrow> int option \<Rightarrow> menu_item reply \<times> menu_item json_file" where
  "delete_menu_item dsk fl itemId =
     (let menuItems = readJSONFile fl in
      case findIndex (has_item_id itemId) menuItems of
        None \<Rightarrow> (Failure 404 ''Menu item not found'', fl)
      | Some itemIndex \<Rightarrow>
          (let deletedItem = menuItems ! itemIndex;
               (ok, fl') = writeJSONFile dsk fl (splice1 itemIndex menuItems)
           in if \<not> ok then (Failure 500 ''Failed to delete menu item'', fl')
              else (Success 200 deletedItem, fl')))"

definition toggle_availability ::
  "menu_item disk \<Rightarrow> menu_item json_file \<Rightarrow> int option \<Rightarrow> menu_item reply \<times> menu_item json_file" where
  "toggle_availability dsk fl itemId =
     (let menuItems = readJSONFile fl in
      case findIndex (has_item_id itemId) menuItems of
        None \<Rightarrow> (Failure 404 ''Menu item not found'', fl)
      | Some itemIndex \<Rightarrow>
          (let item = menuItems ! itemIndex;
               toggled = item\<lparr>isAvailable := \<not> isAvailable item\<rparr>;
               (ok, fl') = writeJSONFile dsk fl (menuItems[itemIndex := toggled])
           in if \<not> ok then (Failure 500 ''Failed to update menu item availability'', fl')
              else (Success 200 toggled, fl')))"

definition get_menu_item :: "menu_item json_file \<Rightarrow> int option \<Rightarrow> menu_item reply" where
  "get_menu_item fl itemId =
     (case find (has_item_id itemId) (readJSONFile fl) of
        None \<Rightarrow> Failure 404 ''Menu item not found''
      | Some item \<Rightarrow> Success 200 item)"

text \<open>
  \<open>router.get('/')\<close> filters by the query parameters and sorts with a comparator
  built on \<open>localeCompare\<close>. \<open>Array.prototype.sort\<close> and \<open>localeCompare\<close> belong to the
  runtime and are parameters here.
\<close>

definition menu_order :: "(string \<Rightarrow> string \<Rightarrow> int) \<Rightarrow> menu_item \<Rightarrow> menu_item \<Rightarrow> int" where
  "menu_order localeCompare a b =
     (if category a \<noteq> category b then localeCompare (category a) (category b)
      else localeCompare (itemName a) (itemName b))"

definition get_menu ::
  "((menu_item \<Rightarrow> menu_item \<Rightarrow> int) \<Rightarrow> menu_item list \<Rightarrow> menu_item list)
     \<Rightarrow> (string \<Rightarrow> string \<Rightarrow> int) \<Rightarrow> menu_item json_file \<Rightarrow> string option \<Rightarrow> string option
     \<Rightarrow> menu_item list reply" where
  "get_menu array_sort localeCompare fl query_category query_available =
     (let menuItems = readJSONFile fl;
          byCategory =
            (case query_category of
               None \<Rightarrow> menuItems
             | Some c \<Rightarrow>
                 if c = [] then menuItems
                 else filter (\<lambda>item. toLowerCase (category item) = toLowerCase c) menuItems);
          byAvailable =
            (case query_available of
               None \<Rightarrow> byCategory
             | Some a \<Rightarrow> filter (\<lambda>item. isAvailable item = (a = ''true'')) byCategory)
      in Success 200 (array_sort (menu_order localeCompare) byAvailable))"

text \<open>
  \<open>[...new Set(menuItems.map(item => item.category))].sort()\<close>: the categories in
  the order of their first occurrence, then sorted by character code.
\<close>

definition first_occurrences :: "'a list \<Rightarrow> 'a list" where
  "first_occurrences xs = rev (remdups (rev xs))"

definition get_categories :: "menu_item json_file \<Rightarrow> string list reply" where
  "get_categories fl =
     Success 200 (sort (first_occurrences (map category (readJSONFile fl))))"

section \<open>Promo codes (backend/routes/promo-codes.js)\<close>

record promo =
  promo_id :: int
  code :: string
  discountPercent :: int
  promo_description :: string
  usageLimit :: "int option"
  usageCount :: int
  startAt :: "string option"
  endAt :: "string option"
  active :: bool
  createdAt :: string
  updatedAt :: string

text \<open>
  What a request sees of the clock: the current time in milliseconds, its ISO
  rendering, and \<open>new Date(s)\<close> as a parser of stored timestamps that yields
  \<open>None\<close> for an invalid date (every comparison with it is false).
\<close>

record clock =
  now :: int
  nowISO :: string
  parseDate :: "string \<Rightarrow> int option"

text \<open>\<open>promoCode.startAt && new Date(promoCode.startAt) > now\<close>\<close>

definition not_yet_active :: "clock \<Rightarrow> promo \<Rightarrow> bool" where
  "not_yet_active clk p =
     (case startAt p of
        None \<Rightarrow> False
      | Some s \<Rightarrow> s \<noteq> [] \<and> (case parseDate clk s of None \<Rightarrow> False | Some t \<Rightarrow> t > now clk))"

text \<open>\<open>promoCode.endAt && new Date(promoCode.endAt) < now\<close>\<close>

definition has_expired :: "clock \<Rightarrow> promo \<Rightarrow> bool" where
  "has_expired clk p =
     (case endAt p of
        None \<Rightarrow> False
      | Some s \<Rightarrow> s \<noteq> [] \<and> (case parseDate clk s of None \<Rightarrow> False | Some t \<Rightarrow> t < now clk))"

text \<open>\<open>promoCode.usageLimit && promoCode.usageCount >= promoCode.usageLimit\<close>\<close>

definition limit_reached :: "promo \<Rightarrow> bool" where
  "limit_reached p =
     (case usageLimit p of None \<Rightarrow> False | Some l \<Rightarrow> l \<noteq> 0 \<and> usageCount p \<ge> l)"

definition same_code :: "string \<Rightarrow> promo \<Rightarrow> bool" where
  "same_code c p = (toUpperCase (code p) = toUpperCase c)"

definition validate_promo :: "clock \<Rightarrow> promo json_file \<Rightarrow> string option \<Rightarrow> promo reply" where
  "validate_promo clk fl body_code =
     (case body_code of
        None \<Rightarrow> Failure 400 ''Promo code is required''
      | Some c \<Rightarrow>
          if c = [] then Failure 400 ''Promo code is required''
          else
            (case find (same_code c) (readJSONFile fl) of
               None \<Rightarrow> Failure 404 ''Invalid promo code''
             | Some promoCode \<Rightarrow>
                 if \<not> active promoCode then Failure 400 ''Promo code is no longer active''
                 else if not_yet_active clk promoCode then
                   Failure 400 ''Promo code is not yet active''
                 else if has_expired clk promoCode then Failure 400 ''Promo code has expired''
                 else if limit_reached promoCode then
                   Failure 400 ''Promo code usage limit reached''
                 else Success 200 promoCode))"

definition get_promo_codes :: "promo json_file \<Rightarrow> promo list reply" where
  "get_promo_codes fl = Success 200 (readJSONFile fl)"

record promo_request =
  preq_code :: "string option"
  preq_discountPercent :: "int option"
  preq_description :: "string option"
  preq_usageLimit :: "int option"
  preq_startAt :: "string option"
  preq_endAt :: "string option"
  preq_active :: "bool option"

text \<open>
  \<open>promoCodes.length > 0 ? Math.max(...promoCodes.map(p => p.id || 0)) + 1 : 1\<close>
\<close>

definition newPromoId :: "promo list \<Rightarrow> int" where
  "newPromoId promoCodes =
     (case map promo_id promoCodes of [] \<Rightarrow> 1 | x # ys \<Rightarrow> js_add (fold max ys x) 1)"

definition newPromoCode :: "clock \<Rightarrow> promo list \<Rightarrow> string \<Rightarrow> int \<Rightarrow> promo_request \<Rightarrow> promo" where
  "newPromoCode clk promoCodes c pct req =
     \<lparr>promo_id = newPromoId promoCodes,
      code = trim (toUpperCase c),
      discountPercent = pct,
      promo_description = or_empty (preq_description req),
      usageLimit =
        (case preq_usageLimit req of None \<Rightarrow> None | Some l \<Rightarrow> if l = 0 then None else Some l),
      usageCount = 0,
      startAt =
        (case preq_startAt req of
           None \<Rightarrow> Some (nowISO clk)
         | Some s \<Rightarrow> if s = [] then Some (nowISO clk) else Some s),
      endAt = (case preq_endAt req of None \<Rightarrow> None | Some s \<Rightarrow> if s = [] then None else Some s),
      active = (case preq_active req of None \<Rightarrow> True | Some b \<Rightarrow> b),
      createdAt = nowISO clk,
      updatedAt = nowISO clk\<rparr>"

definition create_promo ::
  "clock \<Rightarrow> promo disk \<Rightarrow> promo json_file \<Rightarrow> promo_request \<Rightarrow> promo reply \<times> promo json_file" where
  "create_promo clk dsk fl req =
     (case (preq_code req, preq_discountPercent req) of
        (Some c, Some pct) \<Rightarrow>
          if c = [] \<or> pct = 0 then
            (Failure 400 ''Code and discount percentage are required'', fl)
          else if pct < 1 \<or> pct > 100 then
            (Failure 400 ''Discount percentage must be between 1 and 100'', fl)
          else
            (let promoCodes = readJSONFile fl in
             case find (same_code c) promoCodes of
               Some existingCode \<Rightarrow> (Failure 400 ''Promo code already exists'', fl)
             | None \<Rightarrow>
                 (let newPromo = newPromoCode clk promoCodes c pct req;
                      (ok, fl') = writeJSONFile dsk fl (promoCodes @ [newPromo])
                  in if \<not> ok then (Failure 500 ''Failed to save promo code'', fl')
                     else (Success 201 newPromo, fl')))
      | _ \<Rightarrow> (Failure 400 ''Code and discount percentage are required'', fl))"

text \<open>
  The body of an update request: the properties it carries. The handler spreads
  them over the stored promo code, then sets \<open>id\<close> and \<open>updatedAt\<close> itself.
\<close>

record promo_updates =
  pupd_code :: "string option"
  pupd_discountPercent :: "int option"
  pupd_description :: "string option"
  pupd_usageLimit :: "int option option"
  pupd_usageCount :: "int option"
  pupd_startAt :: "string option option"
  pupd_endAt :: "string option option"
  pupd_active :: "bool option"
  pupd_createdAt :: "string option"

definition or_current :: "'a option \<Rightarrow> 'a \<Rightarrow> 'a" where
  "or_current x cur = (case x of None \<Rightarrow> cur | Some v \<Rightarrow> v)"

definition apply_promo_updates :: "clock \<Rightarrow> int \<Rightarrow> promo_updates \<Rightarrow> promo \<Rightarrow> promo" where
  "apply_promo_updates clk promoId u currentPromo =
     \<lparr>promo_id = promoId,
      code = or_current (pupd_code u) (code currentPromo),
      discountPercent = or_current (pupd_discountPercent u) (discountPercent currentPromo),
      promo_description = or_current (pupd_description u) (promo_description currentPromo),
      usageLimit = or_current (pupd_usageLimit u) (usageLimit currentPromo),
      usageCount = or_current (pupd_usageCount u) (usageCount currentPromo),
      startAt = or_current (pupd_startAt u) (startAt currentPromo),
      endAt = or_current (pupd_endAt u) (endAt currentPromo),
      active = or_current (pupd_active u) (active currentPromo),
      createdAt = or_current (pupd_createdAt u) (createdAt currentPromo),
      updatedAt = nowISO clk\<rparr>"

text \<open>
  \<open>promoCodes.findIndex(promo => promo.id === promoId)\<close> with
  \<open>promoId = parseInt(req.params.id)\<close>, which is \<open>None\<close> (\<open>NaN\<close>) when the path
  segment is no number; the index and the identifier come back together.
\<close>

definition promoIndex :: "int option \<Rightarrow> promo list \<Rightarrow> (nat \<times> int) option" where
  "promoIndex promoId promoCodes =
     (case promoId of
        None \<Rightarrow> None
      | Some n \<Rightarrow> map_option (\<lambda>i. (i, n)) (findIndex (\<lambda>p. promo_id p = n) promoCodes))"

definition update_promo ::
  "clock \<Rightarrow> promo disk \<Rightarrow> promo json_file \<Rightarrow> int option \<Rightarrow> promo_updates
     \<Rightarrow> promo reply \<times> promo json_file" where
  "update_promo clk dsk fl promoId u =
     (let promoCodes = readJSONFile fl in
      case promoIndex promoId promoCodes of
        None \<Rightarrow> (Failure 404 ''Promo code not found'', fl)
      | Some (i, n) \<Rightarrow>
          (let updatedPromo = apply_promo_updates clk n u (promoCodes ! i);
               (ok, fl') = writeJSONFile dsk fl (promoCodes[i := updatedPromo])
           in if \<not> ok then (Failure 500 ''Failed to save promo code'', fl')
              else (Success 200 updatedPromo, fl')))"

text \<open>\<open>PATCH /:id/toggle\<close> sets \<open>active\<close> to \<open>Boolean(req.body.active)\<close>.\<close>

definition toggle_promo ::
  "clock \<Rightarrow> promo disk \<Rightarrow> promo json_file \<Rightarrow> int option \<Rightarrow> bool option
     \<Rightarrow> promo reply \<times> promo json_file" where
  "toggle_promo clk dsk fl promoId body_active =
     (let promoCodes = readJSONFile fl in
      case promoIndex promoId promoCodes of
        None \<Rightarrow> (Failure 404 ''Promo code not found'', fl)
      | Some (i, n) \<Rightarrow>
          (let toggled = (promoCodes ! i)
                 \<lparr>active := (case body_active of None \<Rightarrow> False | Some b \<Rightarrow> b),
                  updatedAt := nowISO clk\<rparr>;
               (ok, fl') = writeJSONFile dsk fl (promoCodes[i := toggled])
           in if \<not> ok then (Failure 500 ''Failed to update promo code'', fl')
              else (Success 200 toggled, fl')))"

definition delete_promo ::
  "promo disk \<Rightarrow> promo json_file \<Rightarrow> int option \<Rightarrow> promo reply \<times> promo json_file" where
  "delete_promo dsk fl promoId =
     (let promoCodes = readJSONFile fl in
      case promoIndex promoId promoCodes of
        None \<Rightarrow> (Failure 404 ''Promo code not found'', fl)
      | Some (i, n) \<Rightarrow>
          (let deletedPromo = promoCodes ! i;
               (ok, fl') = writeJSONFile dsk fl (splice1 i promoCodes)
           in if \<not> ok then (Failure 500 ''Failed to delete promo code'', fl')
              else (Success 200 deletedPromo, fl')))"

text \<open>No two stored promo codes have codes that are equal up to case.\<close>

definition codes_unique :: "promo list \<Rightarrow> bool" where
  "codes_unique promoCodes = distinct (map (\<lambda>p. toUpperCase (code p)) promoCodes)"



section \<open>Offers (backend/routes/offers.js)\<close>

record offer =
  offer_id :: int
  title :: string
  offer_description :: string
  benefits :: string
  offer_imageUrl :: string
  imageFileName :: string
  offer_startAt :: "string option"
  offer_endAt :: "string option"
  offer_active :: bool
  offer_createdAt :: string
  offer_updatedAt :: string

definition get_offers :: "offer json_file \<Rightarrow> offer list reply" where
  "get_offers fl = Success 200 (readJSONFile fl)"

text \<open>
  The window of an offer: a missing or empty \<open>startAt\<close> counts as \<open>new Date(0)\<close>, a
  missing or empty \<open>endAt\<close> as \<open>new Date('2099-12-31')\<close>, which is 4102358400000 ms;
  an invalid date (\<open>None\<close>) compares false.
\<close>

definition date_or :: "clock \<Rightarrow> string option \<Rightarrow> int \<Rightarrow> int option" where
  "date_or clk x d =
     (case x of None \<Rightarrow> Some d | Some s \<Rightarrow> if s = [] then Some d else parseDate clk s)"

definition offer_is_active :: "clock \<Rightarrow> offer \<Rightarrow> bool" where
  "offer_is_active clk ofr =
     (if \<not> offer_active ofr then False
      else
        (case (date_or clk (offer_startAt ofr) 0, date_or clk (offer_endAt ofr) 4102358400000) of
           (Some startDate, Some endDate) \<Rightarrow> now clk \<ge> startDate \<and> now clk \<le> endDate
         | _ \<Rightarrow> False))"

definition get_active_offers :: "clock \<Rightarrow> offer json_file \<Rightarrow> offer list reply" where
  "get_active_offers clk fl = Success 200 (filter (offer_is_active clk) (readJSONFile fl))"

record offer_request =
  oreq_title :: "string option"
  oreq_description :: "string option"
  oreq_benefits :: "string option"
  oreq_imageData :: "string option"
  oreq_imageFileName :: "string option"
  oreq_startAt :: "string option"
  oreq_endAt :: "string option"
  oreq_active :: "bool option"

text \<open>\<open>offers.length > 0 ? Math.max(...offers.map(o => o.id || 0)) + 1 : 1\<close>\<close>

definition newOfferId :: "offer list \<Rightarrow> int" where
  "newOfferId offers =
     (case map offer_id offers of [] \<Rightarrow> 1 | x # ys \<Rightarrow> js_add (fold max ys x) 1)"

definition newOffer :: "clock \<Rightarrow> offer list \<Rightarrow> string \<Rightarrow> offer_request \<Rightarrow> offer" where
  "newOffer clk offers t req =
     \<lparr>offer_id = newOfferId offers,
      title = trim t,
      offer_description = or_empty (oreq_description req),
      benefits = or_empty (oreq_benefits req),
      offer_imageUrl = or_empty (oreq_imageData req),
      imageFileName = or_empty (oreq_imageFileName req),
      offer_startAt =
        (case oreq_startAt req of
           None \<Rightarrow> Some (nowISO clk)
         | Some s \<Rightarrow> if s = [] then Some (nowISO clk) else Some s),
      offer_endAt =
        (case oreq_endAt req of None \<Rightarrow> None | Some s \<Rightarrow> if s = [] then None else Some s),
      offer_active = (case oreq_active req of None \<Rightarrow> True | Some b \<Rightarrow> b),
      offer_createdAt = nowISO clk,
      offer_updatedAt = nowISO clk\<rparr>"

definition create_offer ::
  "clock \<Rightarrow> offer disk \<Rightarrow> offer json_file \<Rightarrow> offer_request \<Rightarrow> offer reply \<times> offer json_file" where
  "create_offer clk dsk fl req =
     (case oreq_title req of
        None \<Rightarrow> (Failure 400 ''Title is required'', fl)
      | Some t \<Rightarrow>
          if t = [] then (Failure 400 ''Title is required'', fl)
          else
            (let offers = readJSONFile fl;
                 new = newOffer clk offers t req;
                 (ok, fl') = writeJSONFile dsk fl (offers @ [new])
             in if \<not> ok then (Failure 500 ''Failed to save offer'', fl')
                else (Success 201 new, fl')))"

record offer_updates =
  oupd_title :: "string option"
  oupd_description :: "string option"
  oupd_benefits :: "string option"
  oupd_imageUrl :: "string option"
  oupd_imageFileName :: "string option"
  oupd_startAt :: "string option option"
  oupd_endAt :: "string option option"
  oupd_active :: "bool option"
  oupd_createdAt :: "string option"

definition apply_offer_updates :: "clock \<Rightarrow> int \<Rightarrow> offer_updates \<Rightarrow> offer \<Rightarrow> offer" where
  "apply_offer_updates clk offerId u currentOffer =
     \<lparr>offer_id = offerId,
      title = or_current (oupd_title u) (title currentOffer),
      offer_description = or_current (oupd_description u) (offer_description currentOffer),
      benefits = or_current (oupd_benefits u) (benefits currentOffer),
      offer_imageUrl = or_current (oupd_imageUrl u) (offer_imageUrl currentOffer),
      imageFileName = or_current (oupd_imageFileName u) (imageFileName currentOffer),
      offer_startAt = or_current (oupd_startAt u) (offer_startAt currentOffer),
      offer_endAt = or_current (oupd_endAt u) (offer_endAt currentOffer),
      offer_active = or_current (oupd_active u) (offer_active currentOffer),
      offer_createdAt = or_current (oupd_createdAt u) (offer_createdAt currentOffer),
      offer_updatedAt = nowISO clk\<rparr>"

text \<open>\<open>offers.findIndex(offer => offer.id === offerId)\<close>, as for the promo codes.\<close>

definition offerIndex :: "int option \<Rightarrow> offer list \<Rightarrow> (nat \<times> int) option" where
  "offerIndex offerId offers =
     (case offerId of
        None \<Rightarrow> None
      | Some n \<Rightarrow> map_option (\<lambda>i. (i, n)) (findIndex (\<lambda>p. offer_id p = n) offers))"

definition update_offer ::
  "clock \<Rightarrow> offer disk \<Rightarrow> offer json_file \<Rightarrow> int option \<Rightarrow> offer_updates
     \<Rightarrow> offer reply \<times> offer json_file" where
  "update_offer clk dsk fl offerId u =
     (let offers = readJSONFile fl in
      case offerIndex offerId offers of
        None \<Rightarrow> (Failure 404 ''Offer not found'', fl)
      | Some (i, n) \<Rightarrow>
          (let updatedOffer = apply_offer_updates clk n u (offers ! i);
               (ok, fl') = writeJSONFile dsk fl (offers[i := updatedOffer])
           in if \<not> ok then (Failure 500 ''Failed to save offer'', fl')
              else (Success 200 updatedOffer, fl')))"

definition delete_offer ::
  "offer disk \<Rightarrow> offer json_file \<Rightarrow> int option \<Rightarrow> offer reply \<times> offer json_file" where
  "delete_offer dsk fl offerId =
     (let offers = readJSONFile fl in
      case offerIndex offerId offers of
        None \<Rightarrow> (Failure 404 ''Offer not found'', fl)
      | Some (i, n) \<Rightarrow>
          (let deletedOffer = offers ! i;
               (ok, fl') = writeJSONFile dsk fl (splice1 i offers)
           in if \<not> ok then (Failure 500 ''Failed to delete offer'', fl')
              else (Success 200 deletedOffer, fl')))"

section \<open>Receipt documents (backend/routes/receipts.js)\<close>

text \<open>
  The two PDF routes read the JSON files themselves, with
  \<open>JSON.parse(fs.readFileSync(...))\<close> inside the handler's \<open>try\<close>: a file that cannot be
  read or parsed throws, and the \<open>catch\<close> replies 500. The files are read in the
  order receipts, bookings, users, menu. The drawing of the document
  (\<open>generateReceiptPDF\<close> on a PDFKit document) is the parameter \<open>render\<close>, which gets
  the data the route hands over and replies with the document or, when the
  drawing throws, with the 500 of the same \<open>catch\<close>.
\<close>

record receipt =
  receiptId :: string
  receipt_bookingId :: "int option"
  receiptNumber :: string

datatype receipt_data =
    OfReceipt receipt booking "user option"
  | OfBooking booking "user option"

definition receipt_pdf ::
  "(receipt_data \<Rightarrow> jsval list \<Rightarrow> 'p reply) \<Rightarrow> receipt json_file \<Rightarrow> booking json_file
     \<Rightarrow> user json_file \<Rightarrow> menu_item json_file \<Rightarrow> string \<Rightarrow> 'p reply" where
  "receipt_pdf render receiptsFile bookingsFile usersFile menuFile rid =
     (case receiptsFile of
        Unreadable \<Rightarrow> Failure 500 ''Failed to generate PDF''
      | Stored receiptsData \<Rightarrow>
     (case bookingsFile of
        Unreadable \<Rightarrow> Failure 500 ''Failed to generate PDF''
      | Stored bookingsData \<Rightarrow>
     (case usersFile of
        Unreadable \<Rightarrow> Failure 500 ''Failed to generate PDF''
      | Stored usersData \<Rightarrow>
     (case menuFile of
        Unreadable \<Rightarrow> Failure 500 ''Failed to generate PDF''
      | Stored menuData \<Rightarrow>
          (case find (\<lambda>r. receiptId r = rid) receiptsData of
             None \<Rightarrow> Failure 404 ''Receipt not found''
           | Some r \<Rightarrow>
               (case find (\<lambda>b. b_id b = receipt_bookingId r) bookingsData of
                  None \<Rightarrow> Failure 404 ''Related booking not found''
                | Some b \<Rightarrow>
                    render (OfReceipt r b (find (\<lambda>u. u_id u = userId b) usersData))
                      (selectedItems b)))))))"

text \<open>
  \<open>b.id === parseInt(bookingId)\<close>: \<open>None\<close> is the \<open>NaN\<close> of a path segment that is no
  number, which equals nothing.
\<close>

definition booking_pdf ::
  "(receipt_data \<Rightarrow> jsval list \<Rightarrow> 'p reply) \<Rightarrow> booking json_file \<Rightarrow> user json_file
     \<Rightarrow> menu_item json_file \<Rightarrow> int option \<Rightarrow> 'p reply" where
  "booking_pdf render bookingsFile usersFile menuFile bookingId =
     (case bookingsFile of
        Unreadable \<Rightarrow> Failure 500 ''Failed to generate PDF''
      | Stored bookingsData \<Rightarrow>
     (case usersFile of
        Unreadable \<Rightarrow> Failure 500 ''Failed to generate PDF''
      | Stored usersData \<Rightarrow>
     (case menuFile of
        Unreadable \<Rightarrow> Failure 500 ''Failed to generate PDF''
      | Stored menuData \<Rightarrow>
          (case find (\<lambda>b. case bookingId of None \<Rightarrow> False | Some n \<Rightarrow> b_id b = Some n)
                  bookingsData of
             None \<Rightarrow> Failure 404 ''Booking not found''
           | Some b \<Rightarrow>
               render (OfBooking b (find (\<lambda>u. u_id u = userId b) usersData))
                 (selectedItems b)))))"

section \<open>Password policy (validatePasswordStrength, calculatePasswordStrength)\<close>

definition is_upper :: "char \<Rightarrow> bool" where
  "is_upper c = (let n = (of_char c :: nat) in 65 \<le> n \<and> n \<le> 90)"

definition is_lower :: "char \<Rightarrow> bool" where
  "is_lower c = (let n = (of_char c :: nat) in 97 \<le> n \<and> n \<le> 122)"

definition is_digit :: "char \<Rightarrow> bool" where
  "is_digit c = (let n = (of_char c :: nat) in 48 \<le> n \<and> n \<le> 57)"

text \<open>The character class \<open>[!@#$%^&*(),.?":{}|<>]\<close>; \<open>CHR 0x22\<close> is the double quote.\<close>

definition is_special :: "char \<Rightarrow> bool" where
  "is_special c = (c \<in> set (''!@#$%^&*(),.?'' @ [CHR 0x22] @ '':{}|<>''))"

definition calculatePasswordStrength :: "string \<Rightarrow> string" where
  "calculatePasswordStrength password =
     (let score = (if length password \<ge> 8 then 1 else 0)
                + (if length password \<ge> 12 then 1 else 0)
                + (if list_ex is_upper password then 1 else 0)
                + (if list_ex is_lower password then 1 else 0)
                + (if list_ex is_digit password then 1 else 0)
                + (if list_ex is_special password then 1 else (0::nat))
      in if score < 3 then ''weak'' else if score < 5 then ''medium'' else ''strong'')"

record password_report =
  isValid :: bool
  errors :: "string list"
  strength :: string

definition validatePasswordStrength :: "string \<Rightarrow> password_report" where
  "validatePasswordStrength password =
     (let minLength = (8::nat);
          errors =
            (if length password < minLength
             then [''Password must be at least 8 characters long''] else [])
          @ (if \<not> list_ex is_upper password
             then [''Password must contain at least one uppercase letter''] else [])
          @ (if \<not> list_ex is_lower password
             then [''Password must contain at least one lowercase letter''] else [])
          @ (if \<not> list_ex is_digit password
             then [''Password must contain at least one number''] else [])
          @ (if \<not> list_ex is_special password
             then [''Password must contain at least one special character''] else [])
      in \<lparr>isValid = (length errors = 0), errors = errors,
          strength = calculatePasswordStrength password\<rparr>)"

section \<open>Storage failures, as properties of an operation\<close>

text \<open>
  A failed read goes unnoticed when the operation on the unreadable file replies as
  on the empty collection and leaves a file with the same content to the next
  reader. A failed write is reported when, whatever it leaves behind, it turns
  the success of the operation into a 500 reply with the operation's message
  and keeps every other reply.
\<close>

definition as_if_empty :: "('a json_file \<Rightarrow> 'b reply \<times> 'a json_file) \<Rightarrow> bool" where
  "as_if_empty op =
     (fst (op Unreadable) = fst (op (Stored [])) \<and>
      readJSONFile (snd (op Unreadable)) = readJSONFile (snd (op (Stored []))))"

definition reads_as_empty :: "('a json_file \<Rightarrow> 'b) \<Rightarrow> bool" where
  "reads_as_empty op = (op Unreadable = op (Stored []))"

definition on_write_failure :: "string \<Rightarrow> 'a reply \<Rightarrow> 'a reply" where
  "on_write_failure msg r =
     (case r of Success c x \<Rightarrow> Failure 500 msg | Failure c m \<Rightarrow> Failure c m)"

definition write_failure_is_500 ::
  "string \<Rightarrow> ('a disk \<Rightarrow> 'a json_file \<Rightarrow> 'b reply \<times> 'a json_file) \<Rightarrow> 'a json_file
     \<Rightarrow> 'a json_file \<Rightarrow> bool" where
  "write_failure_is_500 msg op fl left =
     (fst (op (Fails left) fl) = on_write_failure msg (fst (op Accepts fl)))"

section \<open>Example data\<close>

definition stored_booking :: booking where
  "stored_booking = \<lparr>b_id = Some 1, eventDate = JStr ''2025-12-25'', event_date = JUndefined,
     timeSlot = JStr ''morning'', time_slot = JUndefined, userId = Some 1,
     selectedItems = [JObject]\<rparr>"

text \<open>The same booking in the snake-case spelling that the availability scan also reads.\<close>

definition legacy_booking :: booking where
  "legacy_booking = \<lparr>b_id = Some 1, eventDate = JUndefined, event_date = JStr ''2025-12-25'',
     timeSlot = JUndefined, time_slot = JStr ''morning'', userId = Some 1,
     selectedItems = [JObject]\<rparr>"

definition christmas_morning :: booking_request where
  "christmas_morning = \<lparr>req_eventDate = Some ''2025-12-25'', req_timeSlot = Some ''morning'',
     req_selectedItems = Some [JObject]\<rparr>"

definition created_booking :: "int \<Rightarrow> booking" where
  "created_booking n = \<lparr>b_id = Some n, eventDate = JStr ''2025-12-25'', event_date = JUndefined,
     timeSlot = JStr ''morning'', time_slot = JUndefined, userId = Some 1,
     selectedItems = [JObject]\<rparr>"

definition example_clock :: clock where
  "example_clock =
     \<lparr>now = 1762128000000, nowISO = ''2025-11-03T00:00:00.000Z'',
      parseDate = (\<lambda>s. if s = ''2024-01-01'' then Some 1704067200000
                         else if s = ''2025-01-01'' then Some 1735689600000
                         else if s = ''2099-01-01'' then Some 4070908800000 else None)\<rparr>"

definition save10 :: promo where
  "save10 = \<lparr>promo_id = 1, code = ''SAVE10'', discountPercent = 10, promo_description = [],
     usageLimit = Some 100, usageCount = 3, startAt = Some ''2024-01-01'',
     endAt = Some ''2099-01-01'', active = True, createdAt = ''2024-01-01'',
     updatedAt = ''2024-01-01''\<rparr>"


definition welcome5 :: promo where
  "welcome5 = \<lparr>promo_id = 2, code = ''WELCOME'', discountPercent = 5, promo_description = [],
     usageLimit = None, usageCount = 0, startAt = Some ''2024-01-01'', endAt = None,
     active = True, createdAt = ''2024-01-01'', updatedAt = ''2024-01-01''\<rparr>"

definition rename_to_save10 :: promo_updates where
  "rename_to_save10 = \<lparr>pupd_code = Some ''save10'', pupd_discountPercent = None,
     pupd_description = None, pupd_usageLimit = None, pupd_usageCount = None,
     pupd_startAt = None, pupd_endAt = None, pupd_active = None, pupd_createdAt = None\<rparr>"

definition renamed_welcome5 :: promo where
  "renamed_welcome5 = welcome5\<lparr>code := ''save10'', updatedAt := ''2025-11-03T00:00:00.000Z''\<rparr>"

definition adobo :: menu_item where
  "adobo = \<lparr>item_id = Some 3, itemName = ''Adobo'', description = [], category = ''Main'',
     pricePerServing = 150, imageUrl = [], isAvailable = True\<rparr>"

definition pancit :: menu_item where
  "pancit = \<lparr>item_id = Some 7, itemName = ''Pancit'', description = [], category = ''Main'',
     pricePerServing = 120, imageUrl = [], isAvailable = True\<rparr>"

definition lumpia_request :: menu_request where
  "lumpia_request = \<lparr>mreq_itemName = Some ''Lumpia'', mreq_description = None,
     mreq_category = Some ''Starter'', mreq_pricePerServing = Some 80, mreq_imageUrl = None,
     mreq_isAvailable = None\<rparr>"

definition lumpia :: "int option \<Rightarrow> menu_item" where
  "lumpia i = \<lparr>item_id = i, itemName = ''Lumpia'', description = [], category = ''Starter'',
     pricePerServing = 80, imageUrl = [], isAvailable = True\<rparr>"

definition negative_price_update :: menu_updates where
  "negative_price_update = \<lparr>mupd_itemName = None, mupd_description = None,
     mupd_category = None, mupd_pricePerServing = Some (-5), mupd_imageUrl = None,
     mupd_isAvailable = None\<rparr>"

text \<open>A menu item whose identifier is \<open>2^53\<close>.\<close>

definition fiesta_platter :: menu_item where
  "fiesta_platter = \<lparr>item_id = Some 9007199254740992, itemName = ''Fiesta platter'',
     description = [], category = ''Main'', pricePerServing = 950, imageUrl = [],
     isAvailable = True\<rparr>"


section \<open>Availability is the complement of the booked slots\<close>

lemma booked_slot_iff:
  "JStr s \<in> set (filter truthy (map bookingSlot dbs)) \<longleftrightarrow>
     s \<noteq> [] \<and> (\<exists>b \<in> set dbs. bookingSlot b = JStr s)"
proof
  assume "JStr s \<in> set (filter truthy (map bookingSlot dbs))"
  then have t: "truthy (JStr s)" and "JStr s \<in> bookingSlot ` set dbs" by auto
  then obtain b where "b \<in> set dbs" "bookingSlot b = JStr s" by auto
  with t show "s \<noteq> [] \<and> (\<exists>b \<in> set dbs. bookingSlot b = JStr s)" by auto
next
  assume a: "s \<noteq> [] \<and> (\<exists>b \<in> set dbs. bookingSlot b = JStr s)"
  then obtain b where b: "b \<in> set dbs" "bookingSlot b = JStr s" by auto
  then have "JStr s \<in> bookingSlot ` set dbs" by (metis imageI)
  with a show "JStr s \<in> set (filter truthy (map bookingSlot dbs))" by simp
qed

lemma available_iff:
  "s \<in> set (getAvailableSlots dbs) \<longleftrightarrow>
     (s = ''morning'' \<or> s = ''afternoon'') \<and> \<not> (\<exists>b \<in> set dbs. bookingSlot b = JStr s)"
proof -
  have "s \<in> set (getAvailableSlots dbs) \<longleftrightarrow>
          (s = ''morning'' \<or> s = ''afternoon'') \<and>
          JStr s \<notin> set (filter truthy (map bookingSlot dbs))"
    by (auto simp: getAvailableSlots_def Let_def)
  also have "\<dots> \<longleftrightarrow> (s = ''morning'' \<or> s = ''afternoon'') \<and>
          \<not> (\<exists>b \<in> set dbs. bookingSlot b = JStr s)"
    unfolding booked_slot_iff by auto
  finally show ?thesis .
qed

text \<open>
  C1. For every stored bookings list and every date string \<open>d\<close>, the availability
  route replies 200 with the slots \<open>{morning, afternoon}\<close> minus the slots of the
  stored bookings whose date field (\<open>eventDate || event_date\<close>) is exactly the
  string \<open>d\<close>; the slot of a booking is its \<open>timeSlot || time_slot\<close>.
\<close>

theorem availability_is_complement:
  "get_availability (Stored bookings) d =
     Success 200 \<lparr>av_date = d, av_bookings = dateBookings bookings d,
                  availableSlots = getAvailableSlots (dateBookings bookings d)\<rparr>
   \<and> set (getAvailableSlots (dateBookings bookings d)) =
     {''morning'', ''afternoon''} -
     {s. \<exists>b \<in> set bookings. bookingDate b = JStr d \<and> bookingSlot b = JStr s}"
proof -
  have "set (getAvailableSlots (dateBookings bookings d)) =
     {''morning'', ''afternoon''} -
     {s. \<exists>b \<in> set bookings. bookingDate b = JStr d \<and> bookingSlot b = JStr s}"
    by (auto simp: available_iff dateBookings_def)
  then show ?thesis
    by (simp add: get_availability_def readJSONFile_def Let_def)
qed

section \<open>A conflicting creation request fails and leaves the store alone\<close>

lemma find_conflict:
  assumes "b \<in> set bookings" "eventDate b = JStr d" "timeSlot b = JStr s \<or> time_slot b = JStr s"
  shows "\<exists>c. conflictingBooking bookings d s = Some c"
proof -
  have "conflictingBooking bookings d s \<noteq> None"
    using assms unfolding conflictingBooking_def find_None_iff by blast
  then show ?thesis by auto
qed

text \<open>
  When the stored list holds a booking whose \<open>eventDate\<close> is \<open>d\<close> and whose
  \<open>timeSlot\<close> or \<open>time_slot\<close> is \<open>s\<close>, a creation request for \<open>d\<close> and \<open>s\<close> leaves
  the stored list unchanged, whether or not the write would succeed, and a
  request that carries its required fields is answered with the error
  \<open>The s time slot is already booked for d\<close>.
\<close>

lemma create_conflict_atomic:
  assumes "b \<in> set bookings" and "eventDate b = JStr d"
      and "timeSlot b = JStr s \<or> time_slot b = JStr s"
      and "req_eventDate req = Some d" and "req_timeSlot req = Some s"
  shows "snd (create_booking dsk (Stored bookings) req) = Stored bookings \<and>
         (has_required_fields req \<longrightarrow>
            fst (create_booking dsk (Stored bookings) req) =
              Failure 400 (''The '' @ s @ '' time slot is already booked for '' @ d))"
proof -
  obtain c where c: "conflictingBooking bookings d s = Some c"
    using find_conflict [OF assms(1-3)] by blast
  have chk: "create_checked dsk (Stored bookings) d s items =
               (Failure 400 (''The '' @ s @ '' time slot is already booked for '' @ d),
                Stored bookings)"
    for items
    by (simp add: create_checked_def readJSONFile_def c conflict_message_def)
  show ?thesis
    using assms(4,5) chk
    by (auto simp: create_booking_def has_required_fields_def split: option.splits)
qed

lemma create_conflict_atomic_example:
  "create_booking Accepts (Stored [stored_booking]) christmas_morning =
     (Failure 400 ''The morning time slot is already booked for 2025-12-25'',
      Stored [stored_booking])"
proof -
  have 1: "stored_booking \<in> set [stored_booking]" by simp
  have 2: "eventDate stored_booking = JStr ''2025-12-25''" by (simp add: stored_booking_def)
  have 3: "timeSlot stored_booking = JStr ''morning'' \<or> time_slot stored_booking = JStr ''morning''"
    by (simp add: stored_booking_def)
  have 4: "req_eventDate christmas_morning = Some ''2025-12-25''"
    by (simp add: christmas_morning_def)
  have 5: "req_timeSlot christmas_morning = Some ''morning''"
    by (simp add: christmas_morning_def)
  have 6: "has_required_fields christmas_morning"
    by (simp add: has_required_fields_def christmas_morning_def)
  from create_conflict_atomic [OF 1 2 3 4 5, of Accepts] 6
  have "snd (create_booking Accepts (Stored [stored_booking]) christmas_morning) =
          Stored [stored_booking]"
   and "fst (create_booking Accepts (Stored [stored_booking]) christmas_morning) =
          Failure 400 ''The morning time slot is already booked for 2025-12-25''"
    by simp_all
  then show ?thesis by (simp add: prod_eq_iff)
qed

text \<open>
  C2. The claim that a creation request for the date and slot of a stored booking
  fails with a conflict error and leaves the stored list unchanged fails on a
  stored booking in the snake-case spelling: its date (\<open>eventDate || event_date\<close>)
  is 2025-12-25 and its slot is the morning, yet the creation check, which
  compares \<open>eventDate\<close> alone, finds no conflict, and the request for that date and
  slot is answered 201 and appended to the stored list.
\<close>

theorem legacy_date_not_checked:
  "bookingDate legacy_booking = JStr ''2025-12-25'' \<and>
   bookingSlot legacy_booking = JStr ''morning'' \<and>
   conflictingBooking [legacy_booking] ''2025-12-25'' ''morning'' = None \<and>
   create_booking Accepts (Stored [legacy_booking]) christmas_morning =
     (Success 201 (created_booking 2), Stored [legacy_booking, created_booking 2])"
  by code_simp

section \<open>The creation check and the availability scan\<close>

text \<open>
  On stored bookings that use the camel-case spelling only, the creation check
  and the availability scan agree on the two slots.
\<close>

lemma camel_case_agreement:
  assumes camel: "\<forall>b \<in> set bookings. event_date b = JUndefined \<and> time_slot b = JUndefined"
      and d: "d \<noteq> []" and s: "s = ''morning'' \<or> s = ''afternoon''"
  shows "conflictingBooking bookings d s \<noteq> None \<longleftrightarrow>
         s \<notin> set (getAvailableSlots (dateBookings bookings d))"
proof -
  have s': "s \<noteq> []" using s by auto
  have date: "bookingDate b = JStr d \<longleftrightarrow> eventDate b = JStr d" if "b \<in> set bookings" for b
    using camel that d by (auto simp: bookingDate_def js_or_def)
  have slot: "bookingSlot b = JStr s \<longleftrightarrow> timeSlot b = JStr s" if "b \<in> set bookings" for b
    using camel that s' by (auto simp: bookingSlot_def js_or_def)
  have "conflictingBooking bookings d s \<noteq> None \<longleftrightarrow>
          (\<exists>b \<in> set bookings. eventDate b = JStr d \<and> timeSlot b = JStr s)"
    using camel by (auto simp: conflictingBooking_def find_None_iff)
  also have "\<dots> \<longleftrightarrow> (\<exists>b \<in> set bookings. bookingDate b = JStr d \<and> bookingSlot b = JStr s)"
    using date slot by blast
  also have "\<dots> \<longleftrightarrow> s \<notin> set (getAvailableSlots (dateBookings bookings d))"
    using s by (auto simp: available_iff dateBookings_def)
  finally show ?thesis .
qed

text \<open>
  C3. The claim that creation rejects a request exactly when the availability scan
  finds the slot taken fails on a stored booking in the snake-case spelling
  (\<open>event_date\<close>, \<open>time_slot\<close>): the scan reports the morning of 2025-12-25 as taken
  (only the afternoon is available), while the creation check compares
  \<open>eventDate\<close> alone, finds no conflict and stores a second booking for the same
  date and slot.
\<close>

theorem check_and_scan_disagree:
  "get_availability (Stored [legacy_booking]) ''2025-12-25'' =
     Success 200 \<lparr>av_date = ''2025-12-25'', av_bookings = [legacy_booking],
                  availableSlots = [''afternoon'']\<rparr> \<and>
   create_booking Accepts (Stored [legacy_booking]) christmas_morning =
     (Success 201 (created_booking 2), Stored [legacy_booking, created_booking 2])"
  by code_simp

section \<open>Promo-code validation reports the first failing check\<close>





section \<open>Uniqueness of promo codes up to case\<close>

lemma findIndex_Some:
  "findIndex P xs = Some i \<Longrightarrow> i < length xs \<and> P (xs ! i)"
proof (induction xs arbitrary: i)
  case Nil
  then show ?case by simp
next
  case (Cons x xs)
  then show ?case by (auto split: if_splits)
qed

lemma promoIndex_Some:
  "promoIndex promoId promoCodes = Some (i, n) \<Longrightarrow> i < length promoCodes \<and> promo_id (promoCodes ! i) = n"
  by (auto simp: promoIndex_def split: option.splits dest: findIndex_Some)

lemma distinct_splice1: "distinct xs \<Longrightarrow> distinct (splice1 i xs)"
proof -
  assume d: "distinct xs"
  have "distinct (take i xs) \<and> distinct (drop i xs) \<and>
        set (take i xs) \<inter> set (drop i xs) = {}"
    using d distinct_append [of "take i xs" "drop i xs"] by simp
  moreover have "set (drop (Suc i) xs) \<subseteq> set (drop i xs)"
    by (simp add: set_drop_subset_set_drop)
  moreover have "distinct (drop (Suc i) xs)" using d by simp
  ultimately show ?thesis unfolding splice1_def by auto
qed

text \<open>Deleting a promo code and toggling its active flag keep the codes unique.\<close>

lemma delete_promo_keeps_unique:
  assumes "codes_unique promoCodes"
      and "snd (delete_promo Accepts (Stored promoCodes) promoId) = Stored promoCodes'"
  shows "codes_unique promoCodes'"
proof (cases "promoIndex promoId promoCodes")
  case None
  then show ?thesis using assms by (simp add: delete_promo_def readJSONFile_def)
next
  case (Some a)
  obtain i n where a: "a = (i, n)" by (cases a)
  have "promoCodes' = promoCodes \<or> promoCodes' = splice1 i promoCodes"
    using assms(2) Some a
    by (simp add: delete_promo_def readJSONFile_def writeJSONFile_def Let_def)
  moreover have "map (\<lambda>p. toUpperCase (code p)) (splice1 i promoCodes) =
                 splice1 i (map (\<lambda>p. toUpperCase (code p)) promoCodes)"
    by (simp add: splice1_def take_map drop_map)
  ultimately show ?thesis
    using assms(1) distinct_splice1 by (auto simp: codes_unique_def)
qed

lemma toggle_promo_keeps_unique:
  assumes "codes_unique promoCodes"
      and "snd (toggle_promo clk Accepts (Stored promoCodes) promoId a) = Stored promoCodes'"
  shows "codes_unique promoCodes'"
proof (cases "promoIndex promoId promoCodes")
  case None
  then show ?thesis using assms by (simp add: toggle_promo_def readJSONFile_def)
next
  case (Some b)
  obtain i n where b: "b = (i, n)" by (cases b)
  define t where "t = (promoCodes ! i)\<lparr>active := (case a of None \<Rightarrow> False | Some v \<Rightarrow> v),
                                       updatedAt := nowISO clk\<rparr>"
  have i: "i < length promoCodes" using Some b promoIndex_Some by blast
  have "promoCodes' = promoCodes \<or> promoCodes' = promoCodes[i := t]"
    using assms(2) Some b
    by (simp add: toggle_promo_def readJSONFile_def writeJSONFile_def t_def Let_def)
  moreover have "map (\<lambda>p. toUpperCase (code p)) (promoCodes[i := t]) =
                 map (\<lambda>p. toUpperCase (code p)) promoCodes"
    using i by (simp add: map_update t_def list_update_same_conv)
  ultimately show ?thesis
    using assms(1) by (auto simp: codes_unique_def)
qed

text \<open>
  C6. The claim that no promo-code operation can produce two stored codes equal up
  to case fails for the update route, which spreads the request body over the
  stored promo code without the uniqueness check that creation makes: renaming
  \<open>WELCOME\<close> to \<open>save10\<close> beside a stored \<open>SAVE10\<close> succeeds and stores both.
  Creation itself compares the request code before trimming it and stores it
  trimmed, so the code \<open>SAVE10\<close> written with a space on each side passes the
  check and is stored as a second \<open>SAVE10\<close>.
\<close>

theorem update_breaks_uniqueness:
  "codes_unique [save10, welcome5] \<and>
   update_promo example_clock Accepts (Stored [save10, welcome5]) (Some 2) rename_to_save10 =
     (Success 200 renamed_welcome5, Stored [save10, renamed_welcome5]) \<and>
   \<not> codes_unique [save10, renamed_welcome5] \<and>
   (\<exists>new. create_promo example_clock Accepts (Stored [save10])
             \<lparr>preq_code = Some '' save10 '', preq_discountPercent = Some 10,
              preq_description = None, preq_usageLimit = None, preq_startAt = None,
              preq_endAt = None, preq_active = None\<rparr> =
             (Success 201 new, Stored [save10, new]) \<and>
           code new = ''SAVE10'' \<and> \<not> codes_unique [save10, new])"
proof -
  have 1: "codes_unique [save10, welcome5]" by code_simp
  have 2: "update_promo example_clock Accepts (Stored [save10, welcome5]) (Some 2) rename_to_save10 =
     (Success 200 renamed_welcome5, Stored [save10, renamed_welcome5])" by code_simp
  have 3: "\<not> codes_unique [save10, renamed_welcome5]" by code_simp
  define new where "new = newPromoCode example_clock [save10] '' save10 '' 10
             \<lparr>preq_code = Some '' save10 '', preq_discountPercent = Some 10,
              preq_description = None, preq_usageLimit = None, preq_startAt = None,
              preq_endAt = None, preq_active = None\<rparr>"
  have 4: "create_promo example_clock Accepts (Stored [save10])
             \<lparr>preq_code = Some '' save10 '', preq_discountPercent = Some 10,
              preq_description = None, preq_usageLimit = None, preq_startAt = None,
              preq_endAt = None, preq_active = None\<rparr> =
             (Success 201 new, Stored [save10, new])"
    unfolding new_def by code_simp
  have 5: "code new = ''SAVE10''" unfolding new_def by code_simp
  have 6: "\<not> codes_unique [save10, new]" unfolding new_def by code_simp
  show ?thesis using 1 2 3 4 5 6 by blast
qed

section \<open>Password policy\<close>

text \<open>
  C7. A password is valid exactly when it has at least 8 characters and contains
  an uppercase letter, a lowercase letter, a digit and a character of the special
  class. \<open>Abc12345!\<close> is valid with strength \<open>strong\<close>; \<open>abc\<close> is invalid with
  exactly four distinct reasons: length, uppercase, digit and special character.
\<close>

theorem password_policy:
  "(isValid (validatePasswordStrength password) \<longleftrightarrow>
      length password \<ge> 8 \<and> list_ex is_upper password \<and> list_ex is_lower password \<and>
      list_ex is_digit password \<and> list_ex is_special password) \<and>
   validatePasswordStrength ''Abc12345!'' =
     \<lparr>isValid = True, errors = [], strength = ''strong''\<rparr> \<and>
   validatePasswordStrength ''abc'' =
     \<lparr>isValid = False,
      errors = [''Password must be at least 8 characters long'',
                ''Password must contain at least one uppercase letter'',
                ''Password must contain at least one number'',
                ''Password must contain at least one special character''],
      strength = ''weak''\<rparr> \<and>
   length (errors (validatePasswordStrength ''abc'')) = 4 \<and>
   distinct (errors (validatePasswordStrength ''abc''))"
proof -
  have 1: "isValid (validatePasswordStrength password) \<longleftrightarrow>
      length password \<ge> 8 \<and> list_ex is_upper password \<and> list_ex is_lower password \<and>
      list_ex is_digit password \<and> list_ex is_special password"
    by (auto simp: validatePasswordStrength_def Let_def)
  have 2: "validatePasswordStrength ''Abc12345!'' =
     \<lparr>isValid = True, errors = [], strength = ''strong''\<rparr>"
    by code_simp
  have 3: "validatePasswordStrength ''abc'' =
     \<lparr>isValid = False,
      errors = [''Password must be at least 8 characters long'',
                ''Password must contain at least one uppercase letter'',
                ''Password must contain at least one number'',
                ''Password must contain at least one special character''],
      strength = ''weak''\<rparr>"
    by code_simp
  have 4: "length (errors (validatePasswordStrength ''abc'')) = 4"
    unfolding 3 by simp
  have 5: "distinct (errors (validatePasswordStrength ''abc''))"
    unfolding 3 by simp
  show ?thesis using 1 2 3 4 5 by blast
qed

section \<open>Menu items: negative prices and new identifiers\<close>

text \<open>
  C8. An update request whose \<open>pricePerServing\<close> is negative is rejected with the
  validation error before the menu file is read, so the stored menu list is
  unchanged, whatever the item identifier.
\<close>

theorem negative_price_rejected:
  assumes "mupd_pricePerServing u = Some p" and "p < 0"
  shows "update_menu_item dsk fl itemId u =
           (Failure 400 ''Price per serving must be non-negative'', fl)"
  using assms by (simp add: update_menu_item_def negative_price_def)

theorem negative_price_rejected_witness:
  "update_menu_item Accepts (Stored [adobo, pancit]) (Some 3) negative_price_update =
     (Failure 400 ''Price per serving must be non-negative'', Stored [adobo, pancit])"
proof -
  have 1: "mupd_pricePerServing negative_price_update = Some (-5)"
    by (simp add: negative_price_update_def)
  have 2: "(-5::real) < 0" by simp
  show ?thesis by (rule negative_price_rejected [OF 1 2])
qed

lemma fold_max_Max: "fold max ys (x::int) = Max (set (x # ys))"
  by (rule Max.set_eq_fold [symmetric])

lemma bit_length_le: "m < 2 ^ k \<Longrightarrow> bit_length m \<le> k"
proof (induction k arbitrary: m)
  case 0
  then show ?case by (simp add: bit_length.simps)
next
  case (Suc k)
  show ?case
  proof (cases "m \<le> 0")
    case True
    then show ?thesis by (simp add: bit_length.simps)
  next
    case False
    have "m div 2 < 2 ^ k" using Suc.prems by auto
    then have "bit_length (m div 2) \<le> k" by (rule Suc.IH)
    then show ?thesis using False by (subst bit_length.simps) simp
  qed
qed

lemma round_double_small:
  assumes "\<bar>x\<bar> < 2 ^ 53"
  shows "round_double x = x"
proof -
  have "bit_length \<bar>x\<bar> \<le> 53" using assms by (rule bit_length_le)
  then have "bit_length \<bar>x\<bar> - 53 = 0" by simp
  then show ?thesis
    by (simp add: round_double_def Let_def mult_sgn_abs)
qed

lemma round_double_2_53: "round_double 9007199254740992 = 9007199254740992"
  by code_simp

text \<open>Adding 1 to an integer below \<open>2^53\<close> in magnitude is exact.\<close>

lemma js_add_exact:
  assumes "\<bar>a\<bar> < 2 ^ 53"
  shows "js_add a 1 = a + 1"
proof (cases "a + 1 = 2 ^ 53")
  case True
  then show ?thesis using round_double_2_53 by (simp add: js_add_def)
next
  case False
  then have "\<bar>a + 1\<bar> < 2 ^ 53" using assms by auto
  then show ?thesis by (simp add: js_add_def round_double_small)
qed

lemma newMenuId_nonempty:
  assumes "menuItems \<noteq> []" and "\<forall>old \<in> set menuItems. \<bar>id_or_0 old\<bar> < 2 ^ 53"
  shows "newMenuId menuItems = Fin (Max (id_or_0 ` set menuItems) + 1)"
proof -
  obtain x ys where xy: "map id_or_0 menuItems = x # ys"
    using assms(1) by (cases menuItems) auto
  have s: "set (x # ys) = id_or_0 ` set menuItems"
    using xy by (metis set_map)
  have "Max (id_or_0 ` set menuItems) \<in> id_or_0 ` set menuItems"
    using assms(1) by (intro Max_in) auto
  then have "\<bar>Max (id_or_0 ` set menuItems)\<bar> < 2 ^ 53"
    using assms(2) by auto
  then have "js_add (Max (id_or_0 ` set menuItems)) 1 = Max (id_or_0 ` set menuItems) + 1"
    by (rule js_add_exact)
  then show ?thesis
    using s by (simp add: newMenuId_def Math_max_def js_plus_def xy fold_max_Max del: set_simps)
qed

lemma id_below_max:
  assumes "item \<in> set menuItems" "item_id item = Some i"
  shows "i < Max (id_or_0 ` set menuItems) + 1"
proof -
  have "id_or_0 item \<in> id_or_0 ` set menuItems" using assms(1) by (rule imageI)
  then have "id_or_0 item \<le> Max (id_or_0 ` set menuItems)" by simp
  moreover have "id_or_0 item = i" using assms(2) by (simp add: id_or_0_def)
  ultimately show ?thesis by simp
qed

lemma create_menu_item_success:
  assumes "create_menu_item dsk (Stored menuItems) req = (Success 201 item, fl')"
  shows "item_id item = json_num (newMenuId menuItems)"
proof -
  obtain name cat price where
    "item = newItem menuItems name cat price req"
    using assms
    by (auto simp: create_menu_item_def readJSONFile_def writeJSONFile_def Let_def
             split: option.splits if_splits disk.splits)
  then show ?thesis by (simp add: newItem_def)
qed

text \<open>
  C10. The claim that on every non-empty stored list the new identifier is greater
  than every stored one fails where the sum is no longer exact: beside a stored
  item with the identifier \<open>2^53\<close> = 9007199254740992, the sum \<open>2^53 + 1\<close> is \<open>2^53\<close>
  again, and the created item is stored under the identifier of the old one.
\<close>

theorem identifier_repeats_at_2_53:
  "item_id fiesta_platter = Some 9007199254740992 \<and>
   create_menu_item Accepts (Stored [fiesta_platter]) lumpia_request =
     (Success 201 (lumpia (Some 9007199254740992)),
      Stored [fiesta_platter, lumpia (Some 9007199254740992)])"
  by code_simp

text \<open>
  C10, as the code has it. On a non-empty stored list whose identifiers are
  integers below \<open>2^53\<close> in magnitude (a missing identifier counting as 0), a
  created menu item gets the identifier 1 plus the maximum of the stored
  identifiers, which is greater than every stored identifier. On the empty list
  the computed identifier is \<open>-Infinity\<close>, no integer at all, and the item is stored
  without one.
\<close>

theorem menu_create_identifier:
  assumes "create_menu_item dsk (Stored menuItems) req = (Success 201 item, fl')"
      and "\<forall>old \<in> set menuItems. \<bar>id_or_0 old\<bar> < 2 ^ 53"
  shows "(menuItems \<noteq> [] \<longrightarrow>
            item_id item = Some (Max (id_or_0 ` set menuItems) + 1) \<and>
            (\<forall>old \<in> set menuItems. \<forall>i. item_id old = Some i \<longrightarrow>
                 i < Max (id_or_0 ` set menuItems) + 1)) \<and>
         (menuItems = [] \<longrightarrow> newMenuId menuItems = NegInfinity \<and> item_id item = None)"
proof -
  have a: "item_id item = json_num (newMenuId menuItems)"
    using assms(1) by (rule create_menu_item_success)
  have b: "newMenuId [] = NegInfinity"
    by (simp add: newMenuId_def Math_max_def js_plus_def)
  have c: "item_id item = Some (Max (id_or_0 ` set menuItems) + 1)" if "menuItems \<noteq> []"
    using a newMenuId_nonempty [OF that assms(2)] by (simp add: json_num_def)
  have d: "\<forall>old \<in> set menuItems. \<forall>i. item_id old = Some i \<longrightarrow>
             i < Max (id_or_0 ` set menuItems) + 1"
    using id_below_max by blast
  have e: "item_id item = None" if "menuItems = []"
    using a b that by (simp add: json_num_def)
  show ?thesis
    using b c d e by blast
qed

theorem menu_create_identifier_witness:
  "create_menu_item Accepts (Stored [adobo, pancit]) lumpia_request =
     (Success 201 (lumpia (Some 8)), Stored [adobo, pancit, lumpia (Some 8)]) \<and>
   \<bar>id_or_0 adobo\<bar> < 2 ^ 53 \<and> \<bar>id_or_0 pancit\<bar> < 2 ^ 53 \<and>
   Max (id_or_0 ` set [adobo, pancit]) + 1 = 8 \<and>
   create_menu_item Accepts (Stored []) lumpia_request =
     (Success 201 (lumpia None), Stored [lumpia None]) \<and>
   newMenuId [] = NegInfinity"
proof -
  have 1: "create_menu_item Accepts (Stored [adobo, pancit]) lumpia_request =
     (Success 201 (lumpia (Some 8)), Stored [adobo, pancit, lumpia (Some 8)])"
    by code_simp
  have 2: "create_menu_item Accepts (Stored []) lumpia_request =
     (Success 201 (lumpia None), Stored [lumpia None])"
    by code_simp
  have ba: "\<bar>id_or_0 adobo\<bar> < 2 ^ 53" by (simp add: id_or_0_def adobo_def)
  have bp: "\<bar>id_or_0 pancit\<bar> < 2 ^ 53" by (simp add: id_or_0_def pancit_def)
  have r1: "\<forall>old \<in> set [adobo, pancit]. \<bar>id_or_0 old\<bar> < 2 ^ 53" using ba bp by simp
  have r2: "\<forall>old \<in> set ([] :: menu_item list). \<bar>id_or_0 old\<bar> < 2 ^ 53" by simp
  have ne: "[adobo, pancit] \<noteq> []" by simp
  have "item_id (lumpia (Some 8)) = Some (Max (id_or_0 ` set [adobo, pancit]) + 1)"
    using menu_create_identifier [OF 1 r1] ne by blast
  then have 3: "Max (id_or_0 ` set [adobo, pancit]) + 1 = 8"
    by (simp add: lumpia_def)
  have 4: "newMenuId [] = NegInfinity"
    using menu_create_identifier [OF 2 r2] by blast
  show ?thesis using 1 2 3 4 ba bp by blast
qed

section \<open>Storage failures\<close>

lemma write_accepted: "writeJSONFile Accepts fl xs = (True, Stored xs)"
  by (simp add: writeJSONFile_def)

lemma write_failed: "writeJSONFile (Fails left) fl xs = (False, left)"
  by (simp add: writeJSONFile_def)

lemma read_unreadable: "readJSONFile Unreadable = []"
  by (simp add: readJSONFile_def)

lemma read_stored: "readJSONFile (Stored xs) = xs"
  by (simp add: readJSONFile_def)

lemmas store_simps = write_accepted write_failed read_unreadable read_stored

lemmas failure_defs = write_failure_is_500_def on_write_failure_def Let_def

lemma promoIndex_Nil: "promoIndex promoId [] = None"
  by (simp add: promoIndex_def split: option.splits)

lemma offerIndex_Nil: "offerIndex offerId [] = None"
  by (simp add: offerIndex_def split: option.splits)

subsection \<open>Bookings\<close>

lemma create_checked_read:
  "fst (create_checked dsk Unreadable d s items) = fst (create_checked dsk (Stored []) d s items) \<and>
   readJSONFile (snd (create_checked dsk Unreadable d s items)) =
   readJSONFile (snd (create_checked dsk (Stored []) d s items))"
  by (cases dsk) (simp_all add: create_checked_def conflictingBooking_def store_simps)

lemma create_booking_read: "as_if_empty (\<lambda>fl. create_booking dsk fl req)"
  using create_checked_read
  by (simp add: create_booking_def as_if_empty_def store_simps split: option.splits)

lemma create_checked_write:
  "fst (create_checked (Fails left) fl d s items) =
     on_write_failure ''Failed to save booking'' (fst (create_checked Accepts fl d s items))"
  by (simp add: create_checked_def on_write_failure_def Let_def store_simps split: option.splits)

lemma create_booking_write:
  "write_failure_is_500 ''Failed to save booking'' (\<lambda>w fl. create_booking w fl req) fl left"
  using create_checked_write
  by (simp add: create_booking_def write_failure_is_500_def on_write_failure_def
           split: option.splits)

lemma get_availability_read: "reads_as_empty (\<lambda>fl. get_availability fl d)"
  by (simp add: reads_as_empty_def get_availability_def store_simps)

lemma get_bookings_read:
  "reads_as_empty (\<lambda>fl. get_bookings fl usersFile) \<and>
   reads_as_empty (\<lambda>fl. get_bookings bookingsFile fl)"
  by (simp add: reads_as_empty_def get_bookings_def store_simps)

subsection \<open>Menu items\<close>

lemma create_menu_item_read: "as_if_empty (\<lambda>fl. create_menu_item dsk fl req)"
  by (cases dsk)
     (simp_all add: create_menu_item_def as_if_empty_def Let_def store_simps split: option.splits)

lemma create_menu_item_write:
  "write_failure_is_500 ''Failed to save menu item'' (\<lambda>w fl. create_menu_item w fl req) fl left"
  by (simp add: create_menu_item_def failure_defs store_simps split: option.splits)

lemma update_menu_item_read: "as_if_empty (\<lambda>fl. update_menu_item dsk fl itemId u)"
  by (simp add: update_menu_item_def as_if_empty_def store_simps)

lemma update_menu_item_write:
  "write_failure_is_500 ''Failed to save menu item'' (\<lambda>w fl. update_menu_item w fl itemId u) fl left"
  by (simp add: update_menu_item_def failure_defs store_simps split: option.splits)

lemma delete_menu_item_read: "as_if_empty (\<lambda>fl. delete_menu_item dsk fl itemId)"
  by (simp add: delete_menu_item_def as_if_empty_def store_simps)

lemma delete_menu_item_write:
  "write_failure_is_500 ''Failed to delete menu item'' (\<lambda>w fl. delete_menu_item w fl itemId) fl left"
  by (simp add: delete_menu_item_def failure_defs store_simps split: option.splits)

lemma toggle_availability_read: "as_if_empty (\<lambda>fl. toggle_availability dsk fl itemId)"
  by (simp add: toggle_availability_def as_if_empty_def store_simps)

lemma toggle_availability_write:
  "write_failure_is_500 ''Failed to update menu item availability''
     (\<lambda>w fl. toggle_availability w fl itemId) fl left"
  by (simp add: toggle_availability_def failure_defs store_simps split: option.splits)

lemma menu_reads:
  "reads_as_empty (\<lambda>fl. get_menu array_sort localeCompare fl qc qa) \<and>
   reads_as_empty (\<lambda>fl. get_menu_item fl itemId) \<and>
   reads_as_empty get_categories"
  by (simp add: reads_as_empty_def get_menu_def get_menu_item_def get_categories_def
        store_simps)

subsection \<open>Offers\<close>

lemma create_offer_read: "as_if_empty (\<lambda>fl. create_offer clk dsk fl req)"
  by (cases dsk)
     (simp_all add: create_offer_def as_if_empty_def Let_def store_simps split: option.splits)

lemma create_offer_write:
  "write_failure_is_500 ''Failed to save offer'' (\<lambda>w fl. create_offer clk w fl req) fl left"
  by (simp add: create_offer_def failure_defs store_simps split: option.splits)

lemma update_offer_read: "as_if_empty (\<lambda>fl. update_offer clk dsk fl offerId u)"
  by (simp add: update_offer_def as_if_empty_def store_simps offerIndex_Nil)

lemma update_offer_write:
  "write_failure_is_500 ''Failed to save offer'' (\<lambda>w fl. update_offer clk w fl offerId u) fl left"
  by (simp add: update_offer_def failure_defs store_simps split: option.splits)

lemma delete_offer_read: "as_if_empty (\<lambda>fl. delete_offer dsk fl offerId)"
  by (simp add: delete_offer_def as_if_empty_def store_simps offerIndex_Nil)

lemma delete_offer_write:
  "write_failure_is_500 ''Failed to delete offer'' (\<lambda>w fl. delete_offer w fl offerId) fl left"
  by (simp add: delete_offer_def failure_defs store_simps split: option.splits)

lemma offer_reads:
  "reads_as_empty get_offers \<and> reads_as_empty (get_active_offers clk)"
  by (simp add: reads_as_empty_def get_offers_def get_active_offers_def store_simps)

subsection \<open>Promo codes\<close>

lemma create_promo_read: "as_if_empty (\<lambda>fl. create_promo clk dsk fl req)"
  by (cases dsk)
     (simp_all add: create_promo_def as_if_empty_def Let_def store_simps split: option.splits)

lemma create_promo_write:
  "write_failure_is_500 ''Failed to save promo code'' (\<lambda>w fl. create_promo clk w fl req) fl left"
  by (simp add: create_promo_def failure_defs store_simps split: option.splits)

lemma update_promo_read: "as_if_empty (\<lambda>fl. update_promo clk dsk fl promoId u)"
  by (simp add: update_promo_def as_if_empty_def store_simps promoIndex_Nil)

lemma update_promo_write:
  "write_failure_is_500 ''Failed to save promo code'' (\<lambda>w fl. update_promo clk w fl promoId u) fl left"
  by (simp add: update_promo_def failure_defs store_simps split: option.splits)

lemma toggle_promo_read: "as_if_empty (\<lambda>fl. toggle_promo clk dsk fl promoId a)"
  by (simp add: toggle_promo_def as_if_empty_def store_simps promoIndex_Nil)

lemma toggle_promo_write:
  "write_failure_is_500 ''Failed to update promo code'' (\<lambda>w fl. toggle_promo clk w fl promoId a) fl left"
  by (simp add: toggle_promo_def failure_defs store_simps split: option.splits)

lemma delete_promo_read: "as_if_empty (\<lambda>fl. delete_promo dsk fl promoId)"
  by (simp add: delete_promo_def as_if_empty_def store_simps promoIndex_Nil)

lemma delete_promo_write:
  "write_failure_is_500 ''Failed to delete promo code'' (\<lambda>w fl. delete_promo w fl promoId) fl left"
  by (simp add: delete_promo_def failure_defs store_simps split: option.splits)

lemma promo_reads:
  "reads_as_empty get_promo_codes \<and> reads_as_empty (\<lambda>fl. validate_promo clk fl c)"
  by (simp add: reads_as_empty_def get_promo_codes_def validate_promo_def store_simps
           split: option.splits)

subsection \<open>Receipt documents\<close>

lemma receipt_pdf_unreadable:
  "receipt_pdf render Unreadable bf uf mf rid = Failure 500 ''Failed to generate PDF'' \<and>
   receipt_pdf render rf Unreadable uf mf rid = Failure 500 ''Failed to generate PDF'' \<and>
   receipt_pdf render rf bf Unreadable mf rid = Failure 500 ''Failed to generate PDF'' \<and>
   receipt_pdf render rf bf uf Unreadable rid = Failure 500 ''Failed to generate PDF''"
  by (simp add: receipt_pdf_def split: json_file.splits)

lemma booking_pdf_unreadable:
  "booking_pdf render Unreadable uf mf bid = Failure 500 ''Failed to generate PDF'' \<and>
   booking_pdf render bf Unreadable mf bid = Failure 500 ''Failed to generate PDF'' \<and>
   booking_pdf render bf uf Unreadable bid = Failure 500 ''Failed to generate PDF''"
  by (simp add: booking_pdf_def split: json_file.splits)

subsection \<open>All operations\<close>

text \<open>
  C9. The claim that a failed read is turned into a 500 reply, and never treated as
  the empty collection, fails: with an unreadable bookings file the availability
  route replies 200 with both slots free, and a creation request is accepted and
  stored as the only booking of a new file.
\<close>

theorem failed_read_counterexample:
  "get_availability Unreadable ''2025-12-25'' =
     Success 200 \<lparr>av_date = ''2025-12-25'', av_bookings = [],
                  availableSlots = [''morning'', ''afternoon'']\<rparr> \<and>
   get_availability Unreadable ''2025-12-25'' = get_availability (Stored []) ''2025-12-25'' \<and>
   create_booking Accepts Unreadable christmas_morning =
     (Success 201 (created_booking 1), Stored [created_booking 1])"
  by code_simp

text \<open>
  C9, as the code has it. For every operation over the JSON files: a failed
  write, whether or not it has touched the file, turns the success of the
  operation into a 500 reply with the operation's message, every other reply
  being the same as with an accepted write. A failed read is turned into a 500
  reply by the two receipt document routes only, whichever of their files is
  unreadable; in the bookings, menu, offers and promo-code routers it is caught
  inside the read helper, and the operation replies and stores as it does on the
  empty collection.
\<close>

theorem storage_failures:
  "(write_failure_is_500 ''Failed to save booking'' (\<lambda>w fl. create_booking w fl breq) bfl bleft \<and>
    write_failure_is_500 ''Failed to save menu item'' (\<lambda>w fl. create_menu_item w fl mreq) mfl mleft \<and>
    write_failure_is_500 ''Failed to save menu item''
      (\<lambda>w fl. update_menu_item w fl itemId mupd) mfl mleft \<and>
    write_failure_is_500 ''Failed to delete menu item'' (\<lambda>w fl. delete_menu_item w fl itemId) mfl mleft \<and>
    write_failure_is_500 ''Failed to update menu item availability''
      (\<lambda>w fl. toggle_availability w fl itemId) mfl mleft \<and>
    write_failure_is_500 ''Failed to save offer'' (\<lambda>w fl. create_offer clk w fl oreq) ofl oleft \<and>
    write_failure_is_500 ''Failed to save offer''
      (\<lambda>w fl. update_offer clk w fl offerId oupd) ofl oleft \<and>
    write_failure_is_500 ''Failed to delete offer'' (\<lambda>w fl. delete_offer w fl offerId) ofl oleft \<and>
    write_failure_is_500 ''Failed to save promo code'' (\<lambda>w fl. create_promo clk w fl preq) pfl pleft \<and>
    write_failure_is_500 ''Failed to save promo code''
      (\<lambda>w fl. update_promo clk w fl promoId pupd) pfl pleft \<and>
    write_failure_is_500 ''Failed to update promo code''
      (\<lambda>w fl. toggle_promo clk w fl promoId act) pfl pleft \<and>
    write_failure_is_500 ''Failed to delete promo code'' (\<lambda>w fl. delete_promo w fl promoId) pfl pleft) \<and>
   (as_if_empty (\<lambda>fl. create_booking bdsk fl breq) \<and>
    as_if_empty (\<lambda>fl. create_menu_item mdsk fl mreq) \<and>
    as_if_empty (\<lambda>fl. update_menu_item mdsk fl itemId mupd) \<and>
    as_if_empty (\<lambda>fl. delete_menu_item mdsk fl itemId) \<and>
    as_if_empty (\<lambda>fl. toggle_availability mdsk fl itemId) \<and>
    as_if_empty (\<lambda>fl. create_offer clk odsk fl oreq) \<and>
    as_if_empty (\<lambda>fl. update_offer clk odsk fl offerId oupd) \<and>
    as_if_empty (\<lambda>fl. delete_offer odsk fl offerId) \<and>
    as_if_empty (\<lambda>fl. create_promo clk pdsk fl preq) \<and>
    as_if_empty (\<lambda>fl. update_promo clk pdsk fl promoId pupd) \<and>
    as_if_empty (\<lambda>fl. toggle_promo clk pdsk fl promoId act) \<and>
    as_if_empty (\<lambda>fl. delete_promo pdsk fl promoId)) \<and>
   (reads_as_empty (\<lambda>fl. get_availability fl d) \<and>
    reads_as_empty (\<lambda>fl. get_bookings fl usersFile) \<and>
    reads_as_empty (\<lambda>fl. get_bookings bookingsFile fl) \<and>
    reads_as_empty (\<lambda>fl. get_menu array_sort localeCompare fl qc qa) \<and>
    reads_as_empty (\<lambda>fl. get_menu_item fl itemId) \<and>
    reads_as_empty get_categories \<and>
    reads_as_empty get_offers \<and>
    reads_as_empty (get_active_offers clk) \<and>
    reads_as_empty get_promo_codes \<and>
    reads_as_empty (\<lambda>fl. validate_promo clk fl c)) \<and>
   (receipt_pdf render Unreadable bf uf mf rid = Failure 500 ''Failed to generate PDF'' \<and>
    receipt_pdf render rf Unreadable uf mf rid = Failure 500 ''Failed to generate PDF'' \<and>
    receipt_pdf render rf bf Unreadable mf rid = Failure 500 ''Failed to generate PDF'' \<and>
    receipt_pdf render rf bf uf Unreadable rid = Failure 500 ''Failed to generate PDF'' \<and>
    booking_pdf render Unreadable uf mf bid = Failure 500 ''Failed to generate PDF'' \<and>
    booking_pdf render bf Unreadable mf bid = Failure 500 ''Failed to generate PDF'' \<and>
    booking_pdf render bf uf Unreadable bid = Failure 500 ''Failed to generate PDF'')"
proof -
  have w: "write_failure_is_500 ''Failed to save booking'' (\<lambda>w fl. create_booking w fl breq) bfl bleft \<and>
    write_failure_is_500 ''Failed to save menu item'' (\<lambda>w fl. create_menu_item w fl mreq) mfl mleft \<and>
    write_failure_is_500 ''Failed to save menu item''
      (\<lambda>w fl. update_menu_item w fl itemId mupd) mfl mleft \<and>
    write_failure_is_500 ''Failed to delete menu item'' (\<lambda>w fl. delete_menu_item w fl itemId) mfl mleft \<and>
    write_failure_is_500 ''Failed to update menu item availability''
      (\<lambda>w fl. toggle_availability w fl itemId) mfl mleft \<and>
    write_failure_is_500 ''Failed to save offer'' (\<lambda>w fl. create_offer clk w fl oreq) ofl oleft \<and>
    write_failure_is_500 ''Failed to save offer''
      (\<lambda>w fl. update_offer clk w fl offerId oupd) ofl oleft \<and>
    write_failure_is_500 ''Failed to delete offer'' (\<lambda>w fl. delete_offer w fl offerId) ofl oleft \<and>
    write_failure_is_500 ''Failed to save promo code'' (\<lambda>w fl. create_promo clk w fl preq) pfl pleft \<and>
    write_failure_is_500 ''Failed to save promo code''
      (\<lambda>w fl. update_promo clk w fl promoId pupd) pfl pleft \<and>
    write_failure_is_500 ''Failed to update promo code''
      (\<lambda>w fl. toggle_promo clk w fl promoId act) pfl pleft \<and>
    write_failure_is_500 ''Failed to delete promo code'' (\<lambda>w fl. delete_promo w fl promoId) pfl pleft"
    by (intro conjI create_booking_write create_menu_item_write update_menu_item_write
          delete_menu_item_write toggle_availability_write create_offer_write
          update_offer_write delete_offer_write create_promo_write
          update_promo_write toggle_promo_write delete_promo_write)
  have r: "as_if_empty (\<lambda>fl. create_booking bdsk fl breq) \<and>
    as_if_empty (\<lambda>fl. create_menu_item mdsk fl mreq) \<and>
    as_if_empty (\<lambda>fl. update_menu_item mdsk fl itemId mupd) \<and>
    as_if_empty (\<lambda>fl. delete_menu_item mdsk fl itemId) \<and>
    as_if_empty (\<lambda>fl. toggle_availability mdsk fl itemId) \<and>
    as_if_empty (\<lambda>fl. create_offer clk odsk fl oreq) \<and>
    as_if_empty (\<lambda>fl. update_offer clk odsk fl offerId oupd) \<and>
    as_if_empty (\<lambda>fl. delete_offer odsk fl offerId) \<and>
    as_if_empty (\<lambda>fl. create_promo clk pdsk fl preq) \<and>
    as_if_empty (\<lambda>fl. update_promo clk pdsk fl promoId pupd) \<and>
    as_if_empty (\<lambda>fl. toggle_promo clk pdsk fl promoId act) \<and>
    as_if_empty (\<lambda>fl. delete_promo pdsk fl promoId)"
    by (intro conjI create_booking_read create_menu_item_read update_menu_item_read
          delete_menu_item_read toggle_availability_read create_offer_read
          update_offer_read delete_offer_read create_promo_read
          update_promo_read toggle_promo_read delete_promo_read)
  have g: "reads_as_empty (\<lambda>fl. get_availability fl d) \<and>
    reads_as_empty (\<lambda>fl. get_bookings fl usersFile) \<and>
    reads_as_empty (\<lambda>fl. get_bookings bookingsFile fl) \<and>
    reads_as_empty (\<lambda>fl. get_menu array_sort localeCompare fl qc qa) \<and>
    reads_as_empty (\<lambda>fl. get_menu_item fl itemId) \<and>
    reads_as_empty get_categories \<and>
    reads_as_empty get_offers \<and>
    reads_as_empty (get_active_offers clk) \<and>
    reads_as_empty get_promo_codes \<and>
    reads_as_empty (\<lambda>fl. validate_promo clk fl c)"
    using get_availability_read get_bookings_read menu_reads offer_reads promo_reads
    by blast
  have p: "receipt_pdf render Unreadable bf uf mf rid = Failure 500 ''Failed to generate PDF'' \<and>
    receipt_pdf render rf Unreadable uf mf rid = Failure 500 ''Failed to generate PDF'' \<and>
    receipt_pdf render rf bf Unreadable mf rid = Failure 500 ''Failed to generate PDF'' \<and>
    receipt_pdf render rf bf uf Unreadable rid = Failure 500 ''Failed to generate PDF'' \<and>
    booking_pdf render Unreadable uf mf bid = Failure 500 ''Failed to generate PDF'' \<and>
    booking_pdf render bf Unreadable mf bid = Failure 500 ''Failed to generate PDF'' \<and>
    booking_pdf render bf uf Unreadable bid = Failure 500 ''Failed to generate PDF''"
    using receipt_pdf_unreadable [of render bf uf mf rid rf]
          booking_pdf_unreadable [of render uf mf bid bf]
    by blast
  show ?thesis by (rule conjI [OF w conjI [OF r conjI [OF g p]]])
qed


end
